theory Spec2Isabelle
  imports Complex_Main
begin

section \<open>JavaScript values\<close>

text \<open>
  Strings are lists of characters; a character stands for one code unit below 256.
  The numbers of the pages (ids, quantities, stock) are integers. Prices are rationals
  and are never inspected. A number inside a parsed response body is seen by the client
  only through \<open>ToBoolean\<close> and \<open>ToString\<close>, so \<open>JNum z t\<close> gives those two: whether the
  number is zero, and its string form.
\<close>

datatype json =
    JNull
  | JBool bool
  | JNum bool string
  | JStr string
  | JArr "json list"
  | JObj "(string \<times> json) list"

text \<open>
  An object is the list of its own properties, each key once (\<open>JSON.parse\<close> keeps one
  value per key). A JavaScript value is \<open>undefined\<close> (\<open>None\<close>) or a value of the shape
  JSON can carry.
\<close>

type_synonym jsvalue = "json option"

definition digit_char :: "nat \<Rightarrow> char" where
  "digit_char d = ''0123456789'' ! (d mod 10)"

fun show_nat :: "nat \<Rightarrow> string" where
  "show_nat n = (if n < 10 then [digit_char n] else show_nat (n div 10) @ [digit_char n])"

declare show_nat.simps [simp del]

text \<open>The decimal digits of an integer, with a minus sign when it is negative.\<close>

definition show_int :: "int \<Rightarrow> string" where
  "show_int i = (if i < 0 then CHR ''-'' # show_nat (nat (- i)) else show_nat (nat i))"

text \<open>
  \<open>Number.isSafeInteger\<close>: the integers a JavaScript number holds exactly. The string
  form of such a number (\<open>n.toString()\<close>, a number in a template literal) is its decimal
  digits. For any other number the model does not say what is printed: \<open>None\<close>.
\<close>

definition safe_integer :: "int \<Rightarrow> bool" where
  "safe_integer n = (\<bar>n\<bar> < 2 ^ 53)"

definition number_toString :: "int \<Rightarrow> string option" where
  "number_toString n = (if safe_integer n then Some (show_int n) else None)"

text \<open>
  A template literal, kept as its parts: literal text and the numbers put into it.
  \<open>template_text\<close> is the string it evaluates to.
\<close>

datatype piece = Lit string | Num int

type_synonym template = "piece list"


text \<open>Whether the string of a template is empty; the string form of a number never is.\<close>

fun template_empty :: "template \<Rightarrow> bool" where
  "template_empty [] = True"
| "template_empty (Lit s # ps) = (s = [] \<and> template_empty ps)"
| "template_empty (Num n # ps) = False"

fun join_comma :: "string list \<Rightarrow> string" where
  "join_comma [] = []"
| "join_comma [s] = s"
| "join_comma (s # t # ts) = s @ CHR '','' # join_comma (t # ts)"

text \<open>\<open>ToString\<close>: what \<open>new Error(v)\<close> and a template literal do to a value.\<close>

fun json_to_string :: "json \<Rightarrow> string" where
  "json_to_string JNull = ''null''"
| "json_to_string (JBool b) = (if b then ''true'' else ''false'')"
| "json_to_string (JNum z t) = t"
| "json_to_string (JStr s) = s"
| "json_to_string (JArr xs) =
     join_comma (map (\<lambda>x. if x = JNull then [] else json_to_string x) xs)"
| "json_to_string (JObj kvs) = ''[object Object]''"

definition js_to_string :: "jsvalue \<Rightarrow> string" where
  "js_to_string v = (case v of None \<Rightarrow> ''undefined'' | Some j \<Rightarrow> json_to_string j)"

text \<open>\<open>ToBoolean\<close>: objects and arrays are always truthy, also the empty ones.\<close>

fun json_truthy :: "json \<Rightarrow> bool" where
  "json_truthy JNull = False"
| "json_truthy (JBool b) = b"
| "json_truthy (JNum z t) = (\<not> z)"
| "json_truthy (JStr s) = (s \<noteq> [])"
| "json_truthy (JArr xs) = True"
| "json_truthy (JObj kvs) = True"

definition truthy :: "jsvalue \<Rightarrow> bool" where
  "truthy v = (case v of None \<Rightarrow> False | Some j \<Rightarrow> json_truthy j)"

text \<open>
  \<open>body?.message\<close>: \<open>undefined\<close> on \<open>null\<close>, the property of an object that has it, and
  \<open>undefined\<close> on every other value (strings, numbers, booleans and arrays have no
  property of that name).
\<close>

fun get_message :: "json \<Rightarrow> jsvalue" where
  "get_message (JObj kvs) = map_of kvs ''message''"
| "get_message j = None"

text \<open>A thrown or rejected value: an \<open>Error\<close> instance with its message, or anything else.\<close>

datatype thrown = ErrorInstance string | NonError jsvalue

datatype 'a settled = Resolved 'a | Rejected thrown

section \<open>The API client\<close>

text \<open>
  A \<open>Response\<close>: \<open>json_body\<close> is what \<open>res.json()\<close> settles to, \<open>Inl m\<close> when the body
  does not parse (the \<open>SyntaxError\<close> with message \<open>m\<close>), \<open>Inr v\<close> the parsed value.
\<close>

record response =
  status :: nat
  statusText :: string
  json_body :: "string + json"

definition ok :: "response \<Rightarrow> bool" where
  "ok res = (200 \<le> status res \<and> status res \<le> 299)"

text \<open>
  \<open>handleResponse\<close> returns the number of times it called \<open>res.json()\<close> and the way its
  promise settles.
\<close>

definition error_text :: "response \<Rightarrow> jsvalue" where
  "error_text res =
     (case json_body res of
        Inl m \<Rightarrow> Some (JStr (statusText res))
      | Inr body \<Rightarrow>
          if truthy (get_message body) then get_message body
          else Some (JStr (statusText res)))"

definition handleResponse :: "response \<Rightarrow> nat \<times> jsvalue settled" where
  "handleResponse res =
     (if ok res then
        (if status res = 204 then (0, Resolved None)
         else (1, case json_body res of
                    Inl m \<Rightarrow> Rejected (ErrorInstance m)
                  | Inr v \<Rightarrow> Resolved (Some v)))
      else
        (let err = error_text res
         in (1, Rejected (ErrorInstance
                  (js_to_string
                     (if truthy err then err
                      else Some (JStr (''HTTP '' @ show_nat (status res)))))))))"


text \<open>
  A request as handed to \<open>fetch\<close>: the method (\<open>GET\<close> where the call names none), the
  template literal of the URL, the headers the call sets, and the object given to
  \<open>JSON.stringify\<close> for the body, as the list of its properties.
\<close>

datatype field = FStr string | FNum int

record request =
  req_method :: string
  req_url :: template
  req_headers :: "(string \<times> string) list"
  req_body :: "(string \<times> field) list option"

definition createUser_request :: "string \<Rightarrow> string \<Rightarrow> string \<Rightarrow> request" where
  "createUser_request BASE username email =
     \<lparr>req_method = ''POST'', req_url = [Lit BASE, Lit ''/api/users''],
      req_headers = [(''Content-Type'', ''application/json''), (''Accept'', ''application/json'')],
      req_body = Some [(''username'', FStr username), (''email'', FStr email)]\<rparr>"

definition getUsers_request :: "string \<Rightarrow> request" where
  "getUsers_request BASE =
     \<lparr>req_method = ''GET'', req_url = [Lit BASE, Lit ''/api/users''],
      req_headers = [(''Accept'', ''application/json'')], req_body = None\<rparr>"

definition getUserById_request :: "string \<Rightarrow> int \<Rightarrow> request" where
  "getUserById_request BASE uid =
     \<lparr>req_method = ''GET'', req_url = [Lit BASE, Lit ''/api/users/'', Num uid],
      req_headers = [(''Accept'', ''application/json'')], req_body = None\<rparr>"

definition updateUser_request :: "string \<Rightarrow> int \<Rightarrow> string option \<Rightarrow> string option \<Rightarrow> request" where
  "updateUser_request BASE uid username email =
     \<lparr>req_method = ''PUT'', req_url = [Lit BASE, Lit ''/api/users/'', Num uid],
      req_headers = [(''Content-Type'', ''application/json''), (''Accept'', ''application/json'')],
      req_body = Some
        ((case username of None \<Rightarrow> [] | Some u \<Rightarrow> [(''username'', FStr u)]) @
         (case email of None \<Rightarrow> [] | Some e \<Rightarrow> [(''email'', FStr e)]))\<rparr>"

definition deleteUser_request :: "string \<Rightarrow> int \<Rightarrow> request" where
  "deleteUser_request BASE uid =
     \<lparr>req_method = ''DELETE'', req_url = [Lit BASE, Lit ''/api/users/'', Num uid],
      req_headers = [], req_body = None\<rparr>"

definition getProducts_request :: "string \<Rightarrow> request" where
  "getProducts_request BASE =
     \<lparr>req_method = ''GET'', req_url = [Lit BASE, Lit ''/api/products''],
      req_headers = [(''Accept'', ''application/json'')], req_body = None\<rparr>"

definition getProductById_request :: "string \<Rightarrow> int \<Rightarrow> request" where
  "getProductById_request BASE pid =
     \<lparr>req_method = ''GET'', req_url = [Lit BASE, Lit ''/api/products/'', Num pid],
      req_headers = [(''Accept'', ''application/json'')], req_body = None\<rparr>"

definition getCart_request :: "string \<Rightarrow> int \<Rightarrow> request" where
  "getCart_request BASE userId =
     \<lparr>req_method = ''GET'', req_url = [Lit BASE, Lit ''/api/cart?userId='', Num userId],
      req_headers = [(''Accept'', ''application/json'')], req_body = None\<rparr>"

definition addToCart_request :: "string \<Rightarrow> int \<Rightarrow> int \<Rightarrow> int \<Rightarrow> request" where
  "addToCart_request BASE userId productId quantity =
     \<lparr>req_method = ''POST'', req_url = [Lit BASE, Lit ''/api/cart/add?userId='', Num userId],
      req_headers = [(''Content-Type'', ''application/json''), (''Accept'', ''application/json'')],
      req_body = Some [(''productId'', FNum productId), (''quantity'', FNum quantity)]\<rparr>"

definition removeFromCart_request :: "string \<Rightarrow> int \<Rightarrow> int \<Rightarrow> request" where
  "removeFromCart_request BASE userId productId =
     \<lparr>req_method = ''DELETE'',
      req_url = [Lit BASE, Lit ''/api/cart/remove/'', Num productId, Lit ''?userId='', Num userId],
      req_headers = [], req_body = None\<rparr>"

definition checkout_request :: "string \<Rightarrow> int \<Rightarrow> request" where
  "checkout_request BASE userId =
     \<lparr>req_method = ''POST'', req_url = [Lit BASE, Lit ''/api/cart/checkout?userId='', Num userId],
      req_headers = [(''Accept'', ''application/json'')], req_body = None\<rparr>"

text \<open>
  The transport: \<open>fetch\<close> rejects (\<open>Inl\<close>) or resolves with a response. Every API function
  awaits \<open>fetch\<close> and hands the response to \<open>handleResponse\<close>; a rejected \<open>fetch\<close> rejects
  the call with the same value.
\<close>

type_synonym transport = "request \<Rightarrow> thrown + response"

definition send :: "transport \<Rightarrow> request \<Rightarrow> nat \<times> jsvalue settled" where
  "send fetch rq = (case fetch rq of Inl e \<Rightarrow> (0, Rejected e) | Inr res \<Rightarrow> handleResponse res)"

definition createUser :: "transport \<Rightarrow> string \<Rightarrow> string \<Rightarrow> string \<Rightarrow> nat \<times> jsvalue settled" where
  "createUser fetch BASE username email = send fetch (createUser_request BASE username email)"

definition getUsers :: "transport \<Rightarrow> string \<Rightarrow> nat \<times> jsvalue settled" where
  "getUsers fetch BASE = send fetch (getUsers_request BASE)"

definition getUserById :: "transport \<Rightarrow> string \<Rightarrow> int \<Rightarrow> nat \<times> jsvalue settled" where
  "getUserById fetch BASE uid = send fetch (getUserById_request BASE uid)"

definition updateUser ::
  "transport \<Rightarrow> string \<Rightarrow> int \<Rightarrow> string option \<Rightarrow> string option \<Rightarrow> nat \<times> jsvalue settled" where
  "updateUser fetch BASE uid username email = send fetch (updateUser_request BASE uid username email)"

definition deleteUser :: "transport \<Rightarrow> string \<Rightarrow> int \<Rightarrow> nat \<times> jsvalue settled" where
  "deleteUser fetch BASE uid = send fetch (deleteUser_request BASE uid)"

definition getProducts :: "transport \<Rightarrow> string \<Rightarrow> nat \<times> jsvalue settled" where
  "getProducts fetch BASE = send fetch (getProducts_request BASE)"

definition getProductById :: "transport \<Rightarrow> string \<Rightarrow> int \<Rightarrow> nat \<times> jsvalue settled" where
  "getProductById fetch BASE pid = send fetch (getProductById_request BASE pid)"

definition getCart :: "transport \<Rightarrow> string \<Rightarrow> int \<Rightarrow> nat \<times> jsvalue settled" where
  "getCart fetch BASE userId = send fetch (getCart_request BASE userId)"

definition addToCart :: "transport \<Rightarrow> string \<Rightarrow> int \<Rightarrow> int \<Rightarrow> int \<Rightarrow> nat \<times> jsvalue settled" where
  "addToCart fetch BASE userId productId quantity =
     send fetch (addToCart_request BASE userId productId quantity)"

definition removeFromCart :: "transport \<Rightarrow> string \<Rightarrow> int \<Rightarrow> int \<Rightarrow> nat \<times> jsvalue settled" where
  "removeFromCart fetch BASE userId productId =
     send fetch (removeFromCart_request BASE userId productId)"

definition checkout :: "transport \<Rightarrow> string \<Rightarrow> int \<Rightarrow> nat \<times> jsvalue settled" where
  "checkout fetch BASE userId = send fetch (checkout_request BASE userId)"

definition sends_header :: "request \<Rightarrow> string \<Rightarrow> string \<Rightarrow> bool" where
  "sends_header rq name val = (map_of (req_headers rq) name = Some val)"

section \<open>String helpers of the runtime\<close>

text \<open>White space as \<open>trim\<close>, \<open>parseInt\<close> and the regular expression class \<open>\s\<close> see it.\<close>

definition js_space :: "char \<Rightarrow> bool" where
  "js_space c = (of_char c \<in> set [9, 10, 11, 12, 13, 32, 160 :: nat])"

definition trim :: "string \<Rightarrow> string" where
  "trim s = rev (dropWhile js_space (rev (dropWhile js_space s)))"

definition is_digit :: "char \<Rightarrow> bool" where
  "is_digit c = (c \<in> set ''0123456789'')"

definition digit_val :: "char \<Rightarrow> nat" where
  "digit_val c = of_char c - 48"

definition digits_value :: "string \<Rightarrow> nat" where
  "digits_value ds = foldl (\<lambda>acc c. 10 * acc + digit_val c) 0 ds"

text \<open>
  \<open>parseInt(s, 10)\<close>: skip leading white space, read one optional sign, then the longest
  run of decimal digits; \<open>NaN\<close> when that run is empty. Whatever follows the digits is
  ignored. When the digits denote a safe integer the result is that integer, exactly.
  Beyond that range the result is a rounded number, which the model does not give:
  \<open>Unmodelled\<close>.
\<close>

datatype parsed = NotANumber | Integer int | Unmodelled

definition parseInt :: "string \<Rightarrow> parsed" where
  "parseInt s =
     (let t = dropWhile js_space s;
          neg = (case t of [] \<Rightarrow> False | c # cs \<Rightarrow> c = CHR ''-'');
          u = (case t of [] \<Rightarrow> [] | c # cs \<Rightarrow> if c = CHR ''-'' \<or> c = CHR ''+'' then cs else t);
          ds = takeWhile is_digit u
      in if ds = [] then NotANumber
         else if safe_integer (int (digits_value ds)) then
           Integer (if neg then - int (digits_value ds) else int (digits_value ds))
         else Unmodelled)"

text \<open>The pattern \<open>/^[^\s@]+@[^\s@]+\.[^\s@]+$/\<close> of the registration form.\<close>

definition email_char :: "char \<Rightarrow> bool" where
  "email_char c = (\<not> js_space c \<and> c \<noteq> CHR ''@'')"

definition emailRegex_test :: "string \<Rightarrow> bool" where
  "emailRegex_test s =
     (let name = takeWhile email_char s; rest = dropWhile email_char s
      in name \<noteq> [] \<and>
         (case rest of
            [] \<Rightarrow> False
          | c # host \<Rightarrow> c = CHR ''@'' \<and> list_all email_char host \<and>
                         CHR ''.'' \<in> set (butlast (tl host))))"

section \<open>The session context\<close>

definition USER_ID_STORAGE_KEY :: string where
  "USER_ID_STORAGE_KEY = ''ai-store-user-id''"

record session =
  currentUserId :: "int option"
  localStorage :: "string \<rightharpoonup> string"

text \<open>
  \<open>setCurrentUserId\<close> stores \<open>id.toString()\<close>. Where the model does not give that string
  (an id that is not a safe integer) it does not give the new session either: \<open>None\<close>.
\<close>

definition setCurrentUserId :: "int option \<Rightarrow> session \<Rightarrow> session option" where
  "setCurrentUserId uid s =
     (case uid of
        Some n \<Rightarrow>
          (case number_toString n of
             Some str \<Rightarrow>
               Some (s\<lparr>currentUserId := uid,
                        localStorage := (localStorage s)(USER_ID_STORAGE_KEY \<mapsto> str)\<rparr>)
           | None \<Rightarrow> None)
      | None \<Rightarrow>
          Some (s\<lparr>currentUserId := uid,
                   localStorage := (localStorage s)(USER_ID_STORAGE_KEY := None)\<rparr>))"


text \<open>
  The effect of the provider on mount: read the stored id back. \<open>None\<close> where \<open>parseInt\<close>
  is not modelled.
\<close>

definition session_useEffect :: "session \<Rightarrow> session option" where
  "session_useEffect s =
     (case localStorage s USER_ID_STORAGE_KEY of
        None \<Rightarrow> Some s
      | Some stored \<Rightarrow>
          if stored = [] then Some s
          else (case parseInt stored of
                  NotANumber \<Rightarrow> Some s
                | Integer n \<Rightarrow> Some (s\<lparr>currentUserId := Some n\<rparr>)
                | Unmodelled \<Rightarrow> None))"

text \<open>\<open>!currentUserId\<close>: true for \<open>null\<close> and for the number 0.\<close>

definition no_user :: "int option \<Rightarrow> bool" where
  "no_user uid = (case uid of None \<Rightarrow> True | Some n \<Rightarrow> n = 0)"

text \<open>\<open>err instanceof Error ? err.message : fallback\<close>, the catch clause of every page.\<close>

definition catch_message :: "thrown \<Rightarrow> string \<Rightarrow> string" where
  "catch_message err fallback = (case err of ErrorInstance m \<Rightarrow> m | NonError v \<Rightarrow> fallback)"

text \<open>A string state is rendered by \<open>{s && ...}\<close> only when it is neither \<open>null\<close> nor empty.\<close>

definition shown :: "string option \<Rightarrow> string option" where
  "shown s = (case s of None \<Rightarrow> None | Some t \<Rightarrow> if t = [] then None else Some t)"

definition shown_template :: "template option \<Rightarrow> template option" where
  "shown_template s =
     (case s of None \<Rightarrow> None | Some t \<Rightarrow> if template_empty t then None else Some t)"

section \<open>Data transfer objects and effects\<close>

record UserDto =
  user_id :: int
  user_username :: string
  user_email :: string

record ProductDto =
  product_id :: int
  product_name :: string
  product_description :: "string option"
  product_price :: rat
  stockQuantity :: int

record CartItemDto =
  item_id :: int
  item_productId :: int
  item_productName :: string
  item_price :: rat
  item_quantity :: int
  item_subtotal :: rat

record CheckoutResultDto =
  success :: bool
  message :: string
  totalAmount :: "rat option"
  purchasedItems :: "CartItemDto list option"

text \<open>
  What a handler does besides updating its component's state: calls of the API client,
  navigation, and timers (delay in milliseconds).
\<close>

datatype effect =
    Navigate string
  | NavigateAfter nat string
  | ClearMessageAfter nat
  | CallGetProducts
  | CallGetProductById int
  | CallGetCart int
  | CallAddToCart int int int
  | CallRemoveFromCart int int
  | CallCheckout int
  | CallCreateUser string string

section \<open>The product list page\<close>

record home_state =
  home_products :: "ProductDto list"
  home_loading :: bool
  home_error :: "string option"
  home_message :: "string option"

definition home_initial :: home_state where
  "home_initial = \<lparr>home_products = [], home_loading = True, home_error = None, home_message = None\<rparr>"

text \<open>Each handler takes the way the awaited API call settles.\<close>

definition home_loadProducts :: "ProductDto list settled \<Rightarrow> home_state \<Rightarrow> effect list \<times> home_state" where
  "home_loadProducts outcome st =
     (let st1 = st\<lparr>home_loading := True, home_error := None\<rparr>;
          st2 = (case outcome of
                   Resolved data \<Rightarrow> st1\<lparr>home_products := data\<rparr>
                 | Rejected err \<Rightarrow> st1\<lparr>home_error := Some (catch_message err ''Failed to load products'')\<rparr>)
      in ([CallGetProducts], st2\<lparr>home_loading := False\<rparr>))"

definition home_handleAddToCart ::
  "int option \<Rightarrow> int \<Rightarrow> int \<Rightarrow> unit settled \<Rightarrow> home_state \<Rightarrow> effect list \<times> home_state" where
  "home_handleAddToCart uid productId quantity outcome st =
     (case uid of
        None \<Rightarrow> ([], st\<lparr>home_message := Some ''Please register or login to add items to cart''\<rparr>)
      | Some u \<Rightarrow>
          if u = 0 then ([], st\<lparr>home_message := Some ''Please register or login to add items to cart''\<rparr>)
          else
            (let st1 = st\<lparr>home_message := None\<rparr>
             in case outcome of
                  Resolved x \<Rightarrow>
                    ([CallAddToCart u productId quantity, ClearMessageAfter 3000],
                     st1\<lparr>home_message := Some ''Item added to cart!''\<rparr>)
                | Rejected err \<Rightarrow>
                    ([CallAddToCart u productId quantity],
                     st1\<lparr>home_error := Some (catch_message err ''Failed to add to cart'')\<rparr>)))"

datatype home_view =
    HomeLoading
  | HomeError string
  | HomeList "string option" "ProductDto list"

definition home_render :: "home_state \<Rightarrow> home_view" where
  "home_render st =
     (if home_loading st then HomeLoading
      else case shown (home_error st) of
             Some e \<Rightarrow> HomeError e
           | None \<Rightarrow> HomeList (shown (home_message st)) (home_products st))"

section \<open>The cart page\<close>

record cart_state =
  cartItems :: "CartItemDto list"
  cart_loading :: bool
  cart_error :: "string option"
  checkoutResult :: "CheckoutResultDto option"

definition cart_initial :: cart_state where
  "cart_initial = \<lparr>cartItems = [], cart_loading = True, cart_error = None, checkoutResult = None\<rparr>"

definition loadCart :: "int option \<Rightarrow> CartItemDto list settled \<Rightarrow> cart_state \<Rightarrow> effect list \<times> cart_state" where
  "loadCart uid outcome st =
     (case uid of
        None \<Rightarrow> ([], st)
      | Some u \<Rightarrow>
          if u = 0 then ([], st)
          else
            (let st1 = st\<lparr>cart_loading := True, cart_error := None\<rparr>;
                 st2 = (case outcome of
                          Resolved data \<Rightarrow> st1\<lparr>cartItems := data\<rparr>
                        | Rejected err \<Rightarrow> st1\<lparr>cart_error := Some (catch_message err ''Failed to load cart'')\<rparr>)
             in ([CallGetCart u], st2\<lparr>cart_loading := False\<rparr>)))"

text \<open>The effect that runs when the page is entered.\<close>

definition cart_useEffect :: "int option \<Rightarrow> CartItemDto list settled \<Rightarrow> cart_state \<Rightarrow> effect list \<times> cart_state" where
  "cart_useEffect uid outcome st =
     (if no_user uid then ([Navigate ''/register''], st) else loadCart uid outcome st)"

definition handleRemove ::
  "int option \<Rightarrow> int \<Rightarrow> unit settled \<Rightarrow> CartItemDto list settled \<Rightarrow> cart_state \<Rightarrow> effect list \<times> cart_state" where
  "handleRemove uid productId removed reloaded st =
     (case uid of
        None \<Rightarrow> ([], st)
      | Some u \<Rightarrow>
          if u = 0 then ([], st)
          else
            (let st1 = st\<lparr>cart_error := None\<rparr>
             in case removed of
                  Resolved x \<Rightarrow>
                    (let (effs, st2) = loadCart uid reloaded st1
                     in (CallRemoveFromCart u productId # effs, st2))
                | Rejected err \<Rightarrow>
                    ([CallRemoveFromCart u productId],
                     st1\<lparr>cart_error := Some (catch_message err ''Failed to remove item'')\<rparr>)))"

definition handleCheckout :: "int option \<Rightarrow> CheckoutResultDto settled \<Rightarrow> cart_state \<Rightarrow> effect list \<times> cart_state" where
  "handleCheckout uid outcome st =
     (case uid of
        None \<Rightarrow> ([], st)
      | Some u \<Rightarrow>
          if u = 0 then ([], st)
          else if length (cartItems st) = 0 then ([], st\<lparr>cart_error := Some ''Your cart is empty''\<rparr>)
          else
            (let st1 = st\<lparr>cart_error := None\<rparr>
             in case outcome of
                  Resolved result \<Rightarrow>
                    (let st2 = st1\<lparr>checkoutResult := Some result\<rparr>
                     in ([CallCheckout u], if success result then st2\<lparr>cartItems := []\<rparr> else st2))
                | Rejected err \<Rightarrow>
                    ([CallCheckout u], st1\<lparr>cart_error := Some (catch_message err ''Checkout failed'')\<rparr>)))"

definition calculateTotal :: "cart_state \<Rightarrow> rat" where
  "calculateTotal st = foldl (\<lambda>sum item. sum + item_subtotal item) 0 (cartItems st)"

text \<open>
  The checkout result view shows whether it is the success or the failure card, the
  result's message, the total (only on success) and the purchased items (only when the
  list is present and not empty).
\<close>

datatype cart_view =
    CartNull
  | CartLoading
  | CartCheckoutResult bool string "rat option" "CartItemDto list"
  | CartList "string option" "CartItemDto list"

definition cart_render :: "int option \<Rightarrow> cart_state \<Rightarrow> cart_view" where
  "cart_render uid st =
     (if no_user uid then CartNull
      else if cart_loading st then CartLoading
      else case checkoutResult st of
             Some r \<Rightarrow>
               CartCheckoutResult (success r) (message r)
                 (if success r then totalAmount r else None)
                 (case purchasedItems r of None \<Rightarrow> [] | Some items \<Rightarrow> items)
           | None \<Rightarrow> CartList (shown (cart_error st)) (cartItems st))"

section \<open>The product detail page\<close>

record detail_state =
  product :: "ProductDto option"
  detail_loading :: bool
  detail_error :: "string option"
  quantity :: int
  detail_message :: "template option"

definition detail_initial :: detail_state where
  "detail_initial =
     \<lparr>product = None, detail_loading = True, detail_error = None, quantity = 1,
      detail_message = None\<rparr>"

definition loadProduct :: "ProductDto settled \<Rightarrow> detail_state \<Rightarrow> detail_state" where
  "loadProduct outcome st =
     (let st1 = st\<lparr>detail_loading := True, detail_error := None\<rparr>;
          st2 = (case outcome of
                   Resolved data \<Rightarrow> st1\<lparr>product := Some data\<rparr>
                 | Rejected err \<Rightarrow> st1\<lparr>detail_error := Some (catch_message err ''Failed to load product'')\<rparr>)
      in st2\<lparr>detail_loading := False\<rparr>)"


definition detail_handleAddToCart ::
  "int option \<Rightarrow> unit settled \<Rightarrow> detail_state \<Rightarrow> effect list \<times> detail_state" where
  "detail_handleAddToCart uid outcome st =
     (if no_user uid then
        ([NavigateAfter 2000 ''/register''],
         st\<lparr>detail_message := Some [Lit ''Please register or login to add items to cart'']\<rparr>)
      else case product st of
        None \<Rightarrow> ([], st)
      | Some p \<Rightarrow>
          if quantity st \<le> 0 then
            ([], st\<lparr>detail_message := Some [Lit ''Quantity must be greater than 0'']\<rparr>)
          else if quantity st > stockQuantity p then
            ([], st\<lparr>detail_message :=
                     Some [Lit ''Only '', Num (stockQuantity p), Lit '' items available in stock'']\<rparr>)
          else
            (let st1 = st\<lparr>detail_message := None\<rparr>;
                 call = CallAddToCart (case uid of None \<Rightarrow> 0 | Some u \<Rightarrow> u) (product_id p) (quantity st)
             in case outcome of
                  Resolved x \<Rightarrow>
                    ([call, ClearMessageAfter 3000], st1\<lparr>detail_message := Some [Lit ''Item added to cart!'']\<rparr>)
                | Rejected err \<Rightarrow>
                    ([call], st1\<lparr>detail_error := Some (catch_message err ''Failed to add to cart'')\<rparr>)))"

text \<open>
  The messages of this page are template literals: one of them prints the stock. The
  product view carries the message banner and either the quantity control with its
  value and whether it is disabled, or the prompt to register.
\<close>

datatype detail_controls = AddToCartControls int bool | LoginPrompt

datatype detail_view =
    DetailLoading
  | DetailError string
  | DetailProduct ProductDto "template option" detail_controls

definition detail_render :: "int option \<Rightarrow> detail_state \<Rightarrow> detail_view" where
  "detail_render uid st =
     (if detail_loading st then DetailLoading
      else case shown (detail_error st) of
             Some e \<Rightarrow> DetailError e
           | None \<Rightarrow>
               (case product st of
                  None \<Rightarrow> DetailError ''Product not found''
                | Some p \<Rightarrow>
                    DetailProduct p (shown_template (detail_message st))
                      (if no_user uid then LoginPrompt
                       else AddToCartControls (quantity st) (stockQuantity p \<le> 0))))"


definition issues_getCart :: "effect list \<Rightarrow> bool" where
  "issues_getCart effs = list_ex (\<lambda>e. case e of CallGetCart u \<Rightarrow> True | _ \<Rightarrow> False) effs"

section \<open>The registration page\<close>

record register_state =
  username :: string
  email :: string
  register_loading :: bool
  register_error :: "string option"

definition register_initial :: register_state where
  "register_initial = \<lparr>username = [], email = [], register_loading = False, register_error = None\<rparr>"

definition handleSubmit ::
  "UserDto settled \<Rightarrow> register_state \<Rightarrow> session
     \<Rightarrow> effect list \<times> register_state \<times> session option" where
  "handleSubmit outcome st sess =
     (let st0 = st\<lparr>register_error := None\<rparr>
      in if trim (username st) = [] then
           ([], st0\<lparr>register_error := Some ''Username is required''\<rparr>, Some sess)
         else if trim (email st) = [] then
           ([], st0\<lparr>register_error := Some ''Email is required''\<rparr>, Some sess)
         else if \<not> emailRegex_test (email st) then
           ([], st0\<lparr>register_error := Some ''Please enter a valid email address''\<rparr>, Some sess)
         else
           (let st1 = st0\<lparr>register_loading := True\<rparr>;
                call = CallCreateUser (trim (username st)) (trim (email st))
            in case outcome of
                 Resolved user \<Rightarrow>
                   ([call, Navigate ''/''], st1\<lparr>register_loading := False\<rparr>,
                    setCurrentUserId (Some (user_id user)) sess)
               | Rejected err \<Rightarrow>
                   ([call],
                    st1\<lparr>register_error := Some (catch_message err ''Failed to create user''),
                        register_loading := False\<rparr>,
                    Some sess)))"

datatype register_view = RegisterLoggedIn int | RegisterForm "string option" bool

definition register_render :: "int option \<Rightarrow> register_state \<Rightarrow> register_view" where
  "register_render uid st =
     (case uid of
        None \<Rightarrow> RegisterForm (shown (register_error st)) (register_loading st)
      | Some u \<Rightarrow>
          if u = 0 then RegisterForm (shown (register_error st)) (register_loading st)
          else RegisterLoggedIn u)"

section \<open>Decimal numerals and truncation\<close>

text \<open>
  The text of a decimal numeral with an optional minus sign, integer digits \<open>ds\<close> and
  fraction digits \<open>fs\<close>, the number it denotes, and truncation toward zero. These state
  what "decimal input is truncated toward zero" means; \<open>parseInt\<close> is compared with them.
\<close>

definition decimal_text :: "bool \<Rightarrow> string \<Rightarrow> string \<Rightarrow> string" where
  "decimal_text neg ds fs = (if neg then ''-'' else []) @ ds @ CHR ''.'' # fs"






section \<open>Reading numbers from text\<close>







lemma dropWhile_spaces:
  assumes "list_all js_space ws" and "\<not> js_space c"
  shows "dropWhile js_space (ws @ c # cs) = c # cs"
proof -
  have "\<And>x. x \<in> set ws \<Longrightarrow> js_space x"
    using assms(1) by (simp add: list_all_iff)
  then show ?thesis using assms(2) by simp
qed


lemma parseInt_no_number:
  assumes ws: "list_all js_space ws"
    and sg: "sg = [] \<or> sg = ''-'' \<or> sg = ''+''"
    and rest: "rest = [] \<or>
               (\<not> is_digit (hd rest) \<and>
                (sg = [] \<longrightarrow> \<not> js_space (hd rest) \<and> hd rest \<noteq> CHR ''-'' \<and> hd rest \<noteq> CHR ''+''))"
  shows "parseInt (ws @ sg @ rest) = NotANumber"
proof -
  have all: "\<And>x. x \<in> set ws \<Longrightarrow> js_space x"
    using ws by (simp add: list_all_iff)
  have nd: "takeWhile is_digit rest = []"
    using rest by (cases rest) auto
  from sg consider "sg = []" | "sg = ''-''" | "sg = ''+''" by blast
  then show ?thesis
  proof cases
    case 1
    show ?thesis
    proof (cases rest)
      case Nil
      have t: "dropWhile js_space (ws @ sg @ rest) = []"
        using all 1 Nil by simp
      show ?thesis unfolding parseInt_def Let_def t by simp
    next
      case (Cons c cs)
      with rest 1 have c: "\<not> is_digit c" "\<not> js_space c" "c \<noteq> CHR ''-''" "c \<noteq> CHR ''+''"
        by simp_all
      have t: "dropWhile js_space (ws @ sg @ rest) = c # cs"
        using dropWhile_spaces [OF ws c(2), of cs] 1 Cons by simp
      show ?thesis unfolding parseInt_def Let_def t using c by simp
    qed
  next
    case 2
    have t: "dropWhile js_space (ws @ sg @ rest) = CHR ''-'' # rest"
      using dropWhile_spaces [OF ws, of "CHR ''-''" rest] 2 by (simp add: js_space_def)
    show ?thesis unfolding parseInt_def Let_def t using nd by simp
  next
    case 3
    have t: "dropWhile js_space (ws @ sg @ rest) = CHR ''+'' # rest"
      using dropWhile_spaces [OF ws, of "CHR ''+''" rest] 3 by (simp add: js_space_def)
    show ?thesis unfolding parseInt_def Let_def t using nd by simp
  qed
qed


lemma parseInt_leading_point: "parseInt (decimal_text neg [] fs) = NotANumber"
  using parseInt_no_number [of "[]" "if neg then ''-'' else []" "CHR ''.'' # fs"]
  by (simp add: decimal_text_def is_digit_def js_space_def)





lemma digit_val_digit_char: "digit_val (digit_char d) = d mod 10"
proof -
  define k where "k = d mod 10"
  have "k < 10" by (simp add: k_def)
  then have "k = 0 \<or> k = 1 \<or> k = 2 \<or> k = 3 \<or> k = 4 \<or> k = 5 \<or> k = 6 \<or> k = 7 \<or> k = 8 \<or> k = 9"
    by presburger
  then have "digit_val (''0123456789'' ! k) = k"
    by (elim disjE) (simp_all add: digit_val_def)
  then show ?thesis by (simp add: digit_char_def k_def)
qed

lemma digit_char_zero: "digit_char d = CHR ''0'' \<Longrightarrow> d mod 10 = 0"
  using digit_val_digit_char [of d] by (simp add: digit_val_def)








section \<open>Response normalisation\<close>

text \<open>
  C7: a response with status 204 resolves with \<open>undefined\<close> and \<open>res.json()\<close> is never
  called.
\<close>

theorem handleResponse_no_content:
  "status res = 204 \<Longrightarrow> handleResponse res = (0, Resolved None)"
  by (simp add: handleResponse_def ok_def)

theorem handleResponse_no_content_witness:
  "status \<lparr>status = 204, statusText = ''No Content'', json_body = Inl ''Unexpected end of JSON input''\<rparr> = 204
   \<and> handleResponse \<lparr>status = 204, statusText = ''No Content'', json_body = Inl ''Unexpected end of JSON input''\<rparr>
       = (0, Resolved None)"
  using handleResponse_no_content
    [of "\<lparr>status = 204, statusText = ''No Content'', json_body = Inl ''Unexpected end of JSON input''\<rparr>"]
  by simp

text \<open>
  What a response with a non-2xx status rejects with: the string form of the body's
  \<open>message\<close> when the body parses and that value is truthy, else the status text when it
  is not empty, else \<open>HTTP\<close> and the status.
\<close>

lemma error_message_preference:
  assumes "\<not> ok res"
  shows "handleResponse res =
           (1, Rejected (ErrorInstance
             (case json_body res of
                Inl m \<Rightarrow> (if statusText res \<noteq> [] then statusText res else ''HTTP '' @ show_nat (status res))
              | Inr body \<Rightarrow>
                  if truthy (get_message body) then js_to_string (get_message body)
                  else if statusText res \<noteq> [] then statusText res
                  else ''HTTP '' @ show_nat (status res))))"
  using assms
  by (simp add: handleResponse_def error_text_def truthy_def js_to_string_def Let_def split: sum.splits)

lemma error_message_nonempty_string:
  assumes "\<not> ok res"
    and "\<forall>body. json_body res = Inr body \<longrightarrow> truthy (get_message body) \<longrightarrow> (\<exists>s. get_message body = Some (JStr s))"
  shows "\<exists>m. handleResponse res = (1, Rejected (ErrorInstance m)) \<and> m \<noteq> []"
proof (cases "json_body res")
  case (Inl m)
  then show ?thesis using assms(1)
    by (simp add: error_message_preference)
next
  case (Inr body)
  show ?thesis
  proof (cases "truthy (get_message body)")
    case True
    with assms(2) Inr obtain s where s: "get_message body = Some (JStr s)" by blast
    with True have "s \<noteq> []" by (simp add: truthy_def)
    with s True Inr assms(1) show ?thesis
      by (simp add: error_message_preference js_to_string_def)
  next
    case False
    with Inr assms(1) show ?thesis by (simp add: error_message_preference)
  qed
qed

text \<open>
  C1: a non-2xx response must reject with a non-empty message. The response with status
  400, status text \<open>Bad Request\<close> and body \<open>{"message": []}\<close> rejects with the empty
  message: the empty array is truthy, so it replaces the status text and passes the
  final \<open>||\<close>, and its string form is empty.
\<close>

theorem handleResponse_empty_array_message:
  "\<not> ok \<lparr>status = 400, statusText = ''Bad Request'', json_body = Inr (JObj [(''message'', JArr [])])\<rparr>
   \<and> handleResponse \<lparr>status = 400, statusText = ''Bad Request'', json_body = Inr (JObj [(''message'', JArr [])])\<rparr>
       = (1, Rejected (ErrorInstance []))"
  by (simp add: handleResponse_def ok_def error_text_def truthy_def js_to_string_def)

text \<open>
  C6: a 2xx response other than 204 has its body parsed once; it never resolves with
  \<open>undefined\<close>, and when the body does not parse the call rejects with the parse error,
  also for add-to-cart, remove-from-cart and delete-user.
\<close>

theorem success_body_parse:
  assumes "ok res" and "status res \<noteq> 204"
  shows "fst (handleResponse res) = 1
     \<and> snd (handleResponse res) \<noteq> Resolved None
     \<and> (json_body res = Inl m \<longrightarrow>
          handleResponse res = (1, Rejected (ErrorInstance m))
          \<and> (fetch (addToCart_request BASE u p q) = Inr res \<longrightarrow>
               addToCart fetch BASE u p q = (1, Rejected (ErrorInstance m)))
          \<and> (fetch (removeFromCart_request BASE u p) = Inr res \<longrightarrow>
               removeFromCart fetch BASE u p = (1, Rejected (ErrorInstance m)))
          \<and> (fetch (deleteUser_request BASE u) = Inr res \<longrightarrow>
               deleteUser fetch BASE u = (1, Rejected (ErrorInstance m))))"
  using assms
  by (simp add: handleResponse_def addToCart_def removeFromCart_def deleteUser_def send_def
      split: sum.splits)

theorem success_body_parse_witness:
  "ok \<lparr>status = 200, statusText = ''OK'', json_body = Inl ''Unexpected token''\<rparr>
   \<and> status \<lparr>status = 200, statusText = ''OK'', json_body = Inl ''Unexpected token''\<rparr> \<noteq> 204
   \<and> json_body \<lparr>status = 200, statusText = ''OK'', json_body = Inl ''Unexpected token''\<rparr> = Inl ''Unexpected token''
   \<and> (\<lambda>rq. Inr \<lparr>status = 200, statusText = ''OK'', json_body = Inl ''Unexpected token''\<rparr>)
        (addToCart_request [] 1 2 3) = (Inr \<lparr>status = 200, statusText = ''OK'', json_body = Inl ''Unexpected token''\<rparr> :: thrown + response)
   \<and> handleResponse \<lparr>status = 200, statusText = ''OK'', json_body = Inl ''Unexpected token''\<rparr>
        = (1, Rejected (ErrorInstance ''Unexpected token''))
   \<and> addToCart (\<lambda>rq. Inr \<lparr>status = 200, statusText = ''OK'', json_body = Inl ''Unexpected token''\<rparr>) [] 1 2 3
        = (1, Rejected (ErrorInstance ''Unexpected token''))
   \<and> removeFromCart (\<lambda>rq. Inr \<lparr>status = 200, statusText = ''OK'', json_body = Inl ''Unexpected token''\<rparr>) [] 1 2
        = (1, Rejected (ErrorInstance ''Unexpected token''))
   \<and> deleteUser (\<lambda>rq. Inr \<lparr>status = 200, statusText = ''OK'', json_body = Inl ''Unexpected token''\<rparr>) [] 1
        = (1, Rejected (ErrorInstance ''Unexpected token''))"
  using success_body_parse
    [of "\<lparr>status = 200, statusText = ''OK'', json_body = Inl ''Unexpected token''\<rparr>"
        "''Unexpected token''"
        "\<lambda>rq. Inr \<lparr>status = 200, statusText = ''OK'', json_body = Inl ''Unexpected token''\<rparr>"
        "[]" 1 2 3]
  by (simp add: ok_def)

section \<open>Request headers\<close>

lemma other_requests_send_accept:
  "sends_header (createUser_request BASE u e) ''Accept'' ''application/json''"
  "sends_header (getUsers_request BASE) ''Accept'' ''application/json''"
  "sends_header (getUserById_request BASE uid) ''Accept'' ''application/json''"
  "sends_header (updateUser_request BASE uid uo eo) ''Accept'' ''application/json''"
  "sends_header (getProducts_request BASE) ''Accept'' ''application/json''"
  "sends_header (getProductById_request BASE pid) ''Accept'' ''application/json''"
  "sends_header (getCart_request BASE uid) ''Accept'' ''application/json''"
  "sends_header (addToCart_request BASE uid pid q) ''Accept'' ''application/json''"
  "sends_header (checkout_request BASE uid) ''Accept'' ''application/json''"
  by (simp_all add: sends_header_def createUser_request_def getUsers_request_def
      getUserById_request_def updateUser_request_def getProducts_request_def
      getProductById_request_def getCart_request_def addToCart_request_def checkout_request_def)

lemma body_requests_send_content_type:
  "sends_header (createUser_request BASE u e) ''Content-Type'' ''application/json''"
  "sends_header (updateUser_request BASE uid uo eo) ''Content-Type'' ''application/json''"
  "sends_header (addToCart_request BASE uid pid q) ''Content-Type'' ''application/json''"
  by (simp_all add: sends_header_def createUser_request_def updateUser_request_def addToCart_request_def)

text \<open>
  C5: every request must send \<open>Accept: application/json\<close>. The delete-user and
  remove-from-cart requests set no header at all.
\<close>

theorem delete_requests_send_no_headers:
  "req_headers (deleteUser_request BASE uid) = []
   \<and> \<not> sends_header (deleteUser_request BASE uid) ''Accept'' ''application/json''
   \<and> req_headers (removeFromCart_request BASE userId productId) = []
   \<and> \<not> sends_header (removeFromCart_request BASE userId productId) ''Accept'' ''application/json''"
  by (simp add: deleteUser_request_def removeFromCart_request_def sends_header_def)

section \<open>The session store\<close>



section \<open>The cart page: entering and checking out\<close>

text \<open>
  C8: entered with no user id, the cart page navigates to \<open>/register\<close> and calls
  \<open>getCart\<close> zero times: its effect issues the navigation alone, \<open>loadCart\<close> itself
  returns at once, and the page renders nothing.
\<close>

theorem anonymous_cart_redirect:
  "cart_useEffect None outcome st = ([Navigate ''/register''], st)
   \<and> \<not> issues_getCart (fst (cart_useEffect None outcome st))
   \<and> loadCart None outcome st = ([], st)
   \<and> cart_render None st = CartNull"
  by (simp add: cart_useEffect_def no_user_def issues_getCart_def loadCart_def cart_render_def)

lemma cart_list_view:
  assumes "cart_render uid st = CartList banner items"
  shows "\<not> no_user uid \<and> \<not> cart_loading st \<and> checkoutResult st = None"
  using assms by (auto simp: cart_render_def split: if_splits option.splits)

text \<open>
  C2: the checkout button is on the cart list view with at least one item. When the
  checkout call then resolves with a result, the page holds that result; with
  \<open>success = false\<close> the items are unchanged and the page renders the failure card with
  the result's message; with \<open>success = true\<close> the items are cleared. The handler
  returns a state in every branch: nothing is thrown.
\<close>

theorem checkout_result_branches:
  assumes "cart_render uid st = CartList banner (cartItems st)"
    and "cartItems st \<noteq> []"
  shows "checkoutResult (snd (handleCheckout uid (Resolved r) st)) = Some r
     \<and> (\<not> success r \<longrightarrow>
          cartItems (snd (handleCheckout uid (Resolved r) st)) = cartItems st
          \<and> cart_render uid (snd (handleCheckout uid (Resolved r) st))
              = CartCheckoutResult False (message r) None
                  (case purchasedItems r of None \<Rightarrow> [] | Some items \<Rightarrow> items))
     \<and> (success r \<longrightarrow> cartItems (snd (handleCheckout uid (Resolved r) st)) = [])"
proof -
  from cart_list_view [OF assms(1)]
  have u: "\<not> no_user uid" and l: "\<not> cart_loading st" by simp_all
  from u obtain n where n: "uid = Some n" "n \<noteq> 0"
    by (cases uid) (auto simp: no_user_def)
  have h: "handleCheckout uid (Resolved r) st =
      ([CallCheckout n],
       if success r then st\<lparr>cart_error := None, checkoutResult := Some r, cartItems := []\<rparr>
       else st\<lparr>cart_error := None, checkoutResult := Some r\<rparr>)"
    using n assms(2) by (simp add: handleCheckout_def Let_def)
  show ?thesis
    using u l by (simp add: h cart_render_def)
qed

theorem checkout_result_branches_witness:
  "cart_render (Some 123)
      \<lparr>cartItems = [\<lparr>item_id = 1, item_productId = 10, item_productName = ''Laptop'',
                      item_price = 999, item_quantity = 1, item_subtotal = 999\<rparr>],
       cart_loading = False, cart_error = None, checkoutResult = None\<rparr>
    = CartList None [\<lparr>item_id = 1, item_productId = 10, item_productName = ''Laptop'',
                      item_price = 999, item_quantity = 1, item_subtotal = 999\<rparr>]
   \<and> \<not> success \<lparr>success = False, message = ''Some items out of stock'', totalAmount = None,
                  purchasedItems = None\<rparr>
   \<and> cartItems (snd (handleCheckout (Some 123)
        (Resolved \<lparr>success = False, message = ''Some items out of stock'', totalAmount = None,
                   purchasedItems = None\<rparr>)
        \<lparr>cartItems = [\<lparr>item_id = 1, item_productId = 10, item_productName = ''Laptop'',
                        item_price = 999, item_quantity = 1, item_subtotal = 999\<rparr>],
         cart_loading = False, cart_error = None, checkoutResult = None\<rparr>))
      = [\<lparr>item_id = 1, item_productId = 10, item_productName = ''Laptop'',
          item_price = 999, item_quantity = 1, item_subtotal = 999\<rparr>]
   \<and> cart_render (Some 123) (snd (handleCheckout (Some 123)
        (Resolved \<lparr>success = False, message = ''Some items out of stock'', totalAmount = None,
                   purchasedItems = None\<rparr>)
        \<lparr>cartItems = [\<lparr>item_id = 1, item_productId = 10, item_productName = ''Laptop'',
                        item_price = 999, item_quantity = 1, item_subtotal = 999\<rparr>],
         cart_loading = False, cart_error = None, checkoutResult = None\<rparr>))
      = CartCheckoutResult False ''Some items out of stock'' None []
   \<and> success \<lparr>success = True, message = ''Order placed'', totalAmount = Some 999,
                purchasedItems = None\<rparr>
   \<and> cartItems (snd (handleCheckout (Some 123)
        (Resolved \<lparr>success = True, message = ''Order placed'', totalAmount = Some 999,
                   purchasedItems = None\<rparr>)
        \<lparr>cartItems = [\<lparr>item_id = 1, item_productId = 10, item_productName = ''Laptop'',
                        item_price = 999, item_quantity = 1, item_subtotal = 999\<rparr>],
         cart_loading = False, cart_error = None, checkoutResult = None\<rparr>))
      = []"
proof -
  let ?item = "\<lparr>item_id = 1, item_productId = 10, item_productName = ''Laptop'',
                 item_price = 999, item_quantity = 1, item_subtotal = 999\<rparr>"
  let ?st = "\<lparr>cartItems = [?item], cart_loading = False, cart_error = None, checkoutResult = None\<rparr>"
  have v: "cart_render (Some 123) ?st = CartList None (cartItems ?st)"
    by (simp add: cart_render_def no_user_def shown_def)
  have ne: "cartItems ?st \<noteq> []" by simp
  show ?thesis
    using v
      checkout_result_branches [OF v ne,
        of "\<lparr>success = False, message = ''Some items out of stock'', totalAmount = None,
              purchasedItems = None\<rparr>"]
      checkout_result_branches [OF v ne,
        of "\<lparr>success = True, message = ''Order placed'', totalAmount = Some 999,
              purchasedItems = None\<rparr>"]
    by simp
qed

section \<open>Rejections at the page boundary\<close>

lemma caught_home_loadProducts:
  "snd (home_loadProducts (Rejected err) hs)
     = hs\<lparr>home_loading := False, home_error := Some (catch_message err ''Failed to load products'')\<rparr>"
  by (simp add: home_loadProducts_def Let_def)

lemma caught_home_handleAddToCart:
  assumes "\<not> no_user uid"
  shows "snd (home_handleAddToCart uid productId q (Rejected err) hs)
     = hs\<lparr>home_message := None, home_error := Some (catch_message err ''Failed to add to cart'')\<rparr>"
  using assms by (cases uid) (simp_all add: home_handleAddToCart_def no_user_def Let_def)

lemma caught_loadCart:
  assumes "\<not> no_user uid"
  shows "snd (loadCart uid (Rejected err) cs)
     = cs\<lparr>cart_loading := False, cart_error := Some (catch_message err ''Failed to load cart'')\<rparr>"
  using assms by (cases uid) (simp_all add: loadCart_def no_user_def Let_def)

lemma caught_handleRemove:
  assumes "\<not> no_user uid"
  shows "snd (handleRemove uid productId (Rejected err) reloaded cs)
     = cs\<lparr>cart_error := Some (catch_message err ''Failed to remove item'')\<rparr>"
  using assms by (cases uid) (simp_all add: handleRemove_def no_user_def Let_def)

lemma caught_handleCheckout:
  assumes "\<not> no_user uid" and "cartItems cs \<noteq> []"
  shows "snd (handleCheckout uid (Rejected err) cs)
     = cs\<lparr>cart_error := Some (catch_message err ''Checkout failed'')\<rparr>"
  using assms by (cases uid) (simp_all add: handleCheckout_def no_user_def Let_def)

lemma caught_loadProduct:
  "loadProduct (Rejected err) ds
     = ds\<lparr>detail_loading := False, detail_error := Some (catch_message err ''Failed to load product'')\<rparr>"
  by (simp add: loadProduct_def Let_def)

lemma caught_detail_handleAddToCart:
  assumes "\<not> no_user uid" and "product ds = Some p"
    and "0 < quantity ds" and "quantity ds \<le> stockQuantity p"
  shows "snd (detail_handleAddToCart uid (Rejected err) ds)
     = ds\<lparr>detail_message := None, detail_error := Some (catch_message err ''Failed to add to cart'')\<rparr>"
  using assms by (simp add: detail_handleAddToCart_def Let_def)

lemma caught_handleSubmit:
  assumes "trim (username rs) \<noteq> []" and "trim (email rs) \<noteq> []" and "emailRegex_test (email rs)"
  shows "fst (snd (handleSubmit (Rejected err) rs sess))
     = rs\<lparr>register_error := Some (catch_message err ''Failed to create user''),
           register_loading := False\<rparr>"
  using assms by (simp add: handleSubmit_def Let_def)

lemma home_list_view:
  assumes "home_render hs = HomeList banner ps"
  shows "\<not> home_loading hs"
  using assms by (auto simp: home_render_def split: if_splits option.splits)

lemma detail_product_view:
  assumes "detail_render uid ds = DetailProduct p banner (AddToCartControls q disabled)"
  shows "\<not> no_user uid \<and> \<not> detail_loading ds \<and> product ds = Some p"
  using assms by (auto simp: detail_render_def split: if_splits option.splits)

lemma home_error_view:
  assumes "\<not> home_loading hs" and "home_error hs = Some e" and "e \<noteq> []"
  shows "home_render hs = HomeError e"
  using assms by (simp add: home_render_def shown_def)

lemma cart_error_view:
  assumes "\<not> no_user uid" and "\<not> cart_loading cs" and "checkoutResult cs = None"
    and "cart_error cs = Some e" and "e \<noteq> []"
  shows "cart_render uid cs = CartList (Some e) (cartItems cs)"
  using assms by (simp add: cart_render_def shown_def)

lemma detail_error_view:
  assumes "\<not> detail_loading ds" and "detail_error ds = Some e" and "e \<noteq> []"
  shows "detail_render uid ds = DetailError e"
  using assms by (simp add: detail_render_def shown_def)

lemma register_error_view:
  assumes "no_user anon" and "register_error rs = Some e" and "e \<noteq> []"
  shows "register_render anon rs = RegisterForm (Some e) (register_loading rs)"
  using assms by (cases anon) (simp_all add: register_render_def shown_def no_user_def)

text \<open>
  C9, as stated, says that a caught \<open>Error\<close> instance always has its message displayed.
  An \<open>Error\<close> with the empty message sets the error state to the empty string, which
  the pages treat as no error: the product detail page then displays
  \<open>Product not found\<close>, and the product list page displays the list.
\<close>

theorem empty_error_message_not_displayed:
  "detail_error (loadProduct (Rejected (ErrorInstance [])) detail_initial) = Some []
   \<and> detail_render (Some 7) (loadProduct (Rejected (ErrorInstance [])) detail_initial)
       = DetailError ''Product not found''
   \<and> home_error (snd (home_loadProducts (Rejected (ErrorInstance [])) home_initial)) = Some []
   \<and> home_render (snd (home_loadProducts (Rejected (ErrorInstance [])) home_initial))
       = HomeList None []"
  by (simp add: loadProduct_def detail_initial_def detail_render_def home_loadProducts_def
      home_initial_def home_render_def catch_message_def shown_def Let_def)

text \<open>
  C9, amended: at each of the eight catch sites (loading the products, adding to the
  cart from the list, loading the cart, removing an item, checking out, loading a
  product, adding to the cart from the product page, registering), reached from the
  view that offers the action, a caught value that is not an \<open>Error\<close> instance makes the
  page display the fixed fallback of the site, and an \<open>Error\<close> instance with a message
  that is not empty makes the page display exactly that message.
\<close>

theorem rejection_message_normalised:
  assumes user: "\<not> no_user uid"
    and home: "home_render hs = HomeList hbanner (home_products hs)"
    and cart0: "checkoutResult cs0 = None"
    and cart: "cart_render uid cs = CartList cbanner (cartItems cs)" "cartItems cs \<noteq> []"
    and detail: "detail_render uid ds = DetailProduct p dbanner (AddToCartControls (quantity ds) False)"
                "0 < quantity ds" "quantity ds \<le> stockQuantity p"
    and form: "no_user anon" "trim (username rs) \<noteq> []" "trim (email rs) \<noteq> []"
              "emailRegex_test (email rs)"
    and msg: "m \<noteq> []"
  shows "home_render (snd (home_loadProducts (Rejected (NonError v)) hs0))
           = HomeError ''Failed to load products''
     \<and> home_render (snd (home_loadProducts (Rejected (ErrorInstance m)) hs0)) = HomeError m
     \<and> home_render (snd (home_handleAddToCart uid productId q (Rejected (NonError v)) hs))
           = HomeError ''Failed to add to cart''
     \<and> home_render (snd (home_handleAddToCart uid productId q (Rejected (ErrorInstance m)) hs))
           = HomeError m
     \<and> cart_render uid (snd (loadCart uid (Rejected (NonError v)) cs0))
           = CartList (Some ''Failed to load cart'') (cartItems cs0)
     \<and> cart_render uid (snd (loadCart uid (Rejected (ErrorInstance m)) cs0))
           = CartList (Some m) (cartItems cs0)
     \<and> cart_render uid (snd (handleRemove uid productId (Rejected (NonError v)) reloaded cs))
           = CartList (Some ''Failed to remove item'') (cartItems cs)
     \<and> cart_render uid (snd (handleRemove uid productId (Rejected (ErrorInstance m)) reloaded cs))
           = CartList (Some m) (cartItems cs)
     \<and> cart_render uid (snd (handleCheckout uid (Rejected (NonError v)) cs))
           = CartList (Some ''Checkout failed'') (cartItems cs)
     \<and> cart_render uid (snd (handleCheckout uid (Rejected (ErrorInstance m)) cs))
           = CartList (Some m) (cartItems cs)
     \<and> detail_render uid (loadProduct (Rejected (NonError v)) ds0)
           = DetailError ''Failed to load product''
     \<and> detail_render uid (loadProduct (Rejected (ErrorInstance m)) ds0) = DetailError m
     \<and> detail_render uid (snd (detail_handleAddToCart uid (Rejected (NonError v)) ds))
           = DetailError ''Failed to add to cart''
     \<and> detail_render uid (snd (detail_handleAddToCart uid (Rejected (ErrorInstance m)) ds))
           = DetailError m
     \<and> register_render anon (fst (snd (handleSubmit (Rejected (NonError v)) rs sess)))
           = RegisterForm (Some ''Failed to create user'') False
     \<and> register_render anon (fst (snd (handleSubmit (Rejected (ErrorInstance m)) rs sess)))
           = RegisterForm (Some m) False"
proof -
  have hl: "\<not> home_loading hs" using home by (rule home_list_view)
  have cv: "\<not> cart_loading cs" "checkoutResult cs = None"
    using cart_list_view [OF cart(1)] by simp_all
  have dv: "\<not> detail_loading ds" "product ds = Some p"
    using detail_product_view [OF detail(1)] by simp_all
  have h1: "home_render (snd (home_loadProducts (Rejected e) hs0))
              = HomeError (catch_message e ''Failed to load products'')"
    if "catch_message e ''Failed to load products'' \<noteq> []" for e
    using that by (simp add: caught_home_loadProducts home_error_view)
  have h2: "home_render (snd (home_handleAddToCart uid productId q (Rejected e) hs))
              = HomeError (catch_message e ''Failed to add to cart'')"
    if "catch_message e ''Failed to add to cart'' \<noteq> []" for e
    using that hl by (simp add: caught_home_handleAddToCart [OF user] home_error_view)
  have c1: "cart_render uid (snd (loadCart uid (Rejected e) cs0))
              = CartList (Some (catch_message e ''Failed to load cart'')) (cartItems cs0)"
    if "catch_message e ''Failed to load cart'' \<noteq> []" for e
    using that cart0 user by (simp add: caught_loadCart [OF user] cart_error_view)
  have c2: "cart_render uid (snd (handleRemove uid productId (Rejected e) reloaded cs))
              = CartList (Some (catch_message e ''Failed to remove item'')) (cartItems cs)"
    if "catch_message e ''Failed to remove item'' \<noteq> []" for e
    using that cv user by (simp add: caught_handleRemove [OF user] cart_error_view)
  have c3: "cart_render uid (snd (handleCheckout uid (Rejected e) cs))
              = CartList (Some (catch_message e ''Checkout failed'')) (cartItems cs)"
    if "catch_message e ''Checkout failed'' \<noteq> []" for e
    using that cv user by (simp add: caught_handleCheckout [OF user cart(2)] cart_error_view)
  have d1: "detail_render uid (loadProduct (Rejected e) ds0)
              = DetailError (catch_message e ''Failed to load product'')"
    if "catch_message e ''Failed to load product'' \<noteq> []" for e
    using that by (simp add: caught_loadProduct detail_error_view)
  have d2: "detail_render uid (snd (detail_handleAddToCart uid (Rejected e) ds))
              = DetailError (catch_message e ''Failed to add to cart'')"
    if "catch_message e ''Failed to add to cart'' \<noteq> []" for e
    using that dv
    by (simp add: caught_detail_handleAddToCart [OF user dv(2) detail(2) detail(3)] detail_error_view)
  have r1: "register_render anon (fst (snd (handleSubmit (Rejected e) rs sess)))
              = RegisterForm (Some (catch_message e ''Failed to create user'')) False"
    if "catch_message e ''Failed to create user'' \<noteq> []" for e
    using that form(1)
    by (simp add: caught_handleSubmit [OF form(2) form(3) form(4)] register_error_view)
  show ?thesis
    using h1 [of "NonError v"] h1 [of "ErrorInstance m"]
      h2 [of "NonError v"] h2 [of "ErrorInstance m"]
      c1 [of "NonError v"] c1 [of "ErrorInstance m"]
      c2 [of "NonError v"] c2 [of "ErrorInstance m"]
      c3 [of "NonError v"] c3 [of "ErrorInstance m"]
      d1 [of "NonError v"] d1 [of "ErrorInstance m"]
      d2 [of "NonError v"] d2 [of "ErrorInstance m"]
      r1 [of "NonError v"] r1 [of "ErrorInstance m"] msg
    by (simp add: catch_message_def)
qed

theorem rejection_message_normalised_witness:
  "\<not> no_user (Some 7) \<and> no_user None
   \<and> trim ''bob'' \<noteq> [] \<and> trim ''bob@example.com'' \<noteq> [] \<and> emailRegex_test ''bob@example.com''
   \<and> ''Insufficient stock'' \<noteq> []
   \<and> home_render \<lparr>home_products = [\<lparr>product_id = 1, product_name = ''Laptop'',
                       product_description = None, product_price = 999, stockQuantity = 5\<rparr>],
                    home_loading = False, home_error = None, home_message = None\<rparr>
       = HomeList None [\<lparr>product_id = 1, product_name = ''Laptop'',
                         product_description = None, product_price = 999, stockQuantity = 5\<rparr>]
   \<and> home_render (snd (home_handleAddToCart (Some 7) 1 1 (Rejected (NonError (Some JNull)))
        \<lparr>home_products = [\<lparr>product_id = 1, product_name = ''Laptop'',
                            product_description = None, product_price = 999, stockQuantity = 5\<rparr>],
         home_loading = False, home_error = None, home_message = None\<rparr>))
       = HomeError ''Failed to add to cart''
   \<and> cart_render (Some 7) (snd (loadCart (Some 7) (Rejected (ErrorInstance ''Insufficient stock''))
        cart_initial))
       = CartList (Some ''Insufficient stock'') []
   \<and> cart_render (Some 7) (snd (handleCheckout (Some 7) (Rejected (NonError (Some JNull)))
        \<lparr>cartItems = [\<lparr>item_id = 1, item_productId = 10, item_productName = ''Laptop'',
                        item_price = 999, item_quantity = 1, item_subtotal = 999\<rparr>],
         cart_loading = False, cart_error = None, checkoutResult = None\<rparr>))
       = CartList (Some ''Checkout failed'')
           [\<lparr>item_id = 1, item_productId = 10, item_productName = ''Laptop'',
             item_price = 999, item_quantity = 1, item_subtotal = 999\<rparr>]
   \<and> detail_render (Some 7) (loadProduct (Rejected (NonError (Some JNull))) detail_initial)
       = DetailError ''Failed to load product''
   \<and> detail_render (Some 7) (snd (detail_handleAddToCart (Some 7)
        (Rejected (ErrorInstance ''Insufficient stock''))
        \<lparr>product = Some \<lparr>product_id = 1, product_name = ''Laptop'', product_description = None,
                          product_price = 999, stockQuantity = 5\<rparr>,
         detail_loading = False, detail_error = None, quantity = 1, detail_message = None\<rparr>))
       = DetailError ''Insufficient stock''
   \<and> register_render None (fst (snd (handleSubmit (Rejected (NonError (Some JNull)))
        \<lparr>username = ''bob'', email = ''bob@example.com'', register_loading = False,
         register_error = None\<rparr>
        \<lparr>currentUserId = None, localStorage = Map.empty\<rparr>)))
       = RegisterForm (Some ''Failed to create user'') False"
proof -
  let ?p = "\<lparr>product_id = 1, product_name = ''Laptop'', product_description = None,
              product_price = 999, stockQuantity = 5\<rparr>"
  let ?hs = "\<lparr>home_products = [?p], home_loading = False, home_error = None, home_message = None\<rparr>"
  let ?item = "\<lparr>item_id = 1, item_productId = 10, item_productName = ''Laptop'',
                 item_price = 999, item_quantity = 1, item_subtotal = 999\<rparr>"
  let ?cs = "\<lparr>cartItems = [?item], cart_loading = False, cart_error = None, checkoutResult = None\<rparr>"
  let ?ds = "\<lparr>product = Some ?p, detail_loading = False, detail_error = None, quantity = 1,
               detail_message = None\<rparr>"
  let ?rs = "\<lparr>username = ''bob'', email = ''bob@example.com'', register_loading = False,
               register_error = None\<rparr>"
  have user: "\<not> no_user (Some 7)" and anon: "no_user None"
    by (simp_all add: no_user_def)
  have home: "home_render ?hs = HomeList None (home_products ?hs)"
    by (simp add: home_render_def shown_def)
  have cart0: "checkoutResult cart_initial = None"
    by (simp add: cart_initial_def)
  have cart: "cart_render (Some 7) ?cs = CartList None (cartItems ?cs)" "cartItems ?cs \<noteq> []"
    by (simp_all add: cart_render_def shown_def no_user_def)
  have detail: "detail_render (Some 7) ?ds = DetailProduct ?p None (AddToCartControls (quantity ?ds) False)"
    "0 < quantity ?ds" "quantity ?ds \<le> stockQuantity ?p"
    by (simp_all add: detail_render_def shown_def shown_template_def no_user_def)
  have form: "trim (username ?rs) \<noteq> []" "trim (email ?rs) \<noteq> []" "emailRegex_test (email ?rs)"
    by (simp_all add: trim_def js_space_def emailRegex_test_def email_char_def)
  have msg: "''Insufficient stock'' \<noteq> []" by simp
  show ?thesis
    using user anon home form
      rejection_message_normalised [OF user home cart0 cart detail anon form msg,
        of "Some JNull" home_initial 1 1 "Resolved []" detail_initial
           "\<lparr>currentUserId = None, localStorage = Map.empty\<rparr>"]
    by (simp add: cart_initial_def)
qed

text \<open>
  C4: a transient action must leave the product list or the product rendered,
  whatever its outcome. On the product list page and on the product detail page a
  rejected add-to-cart call sets the error state, and the page renders the error view
  in place of the list or the product.
\<close>

theorem failed_add_replaces_page:
  "home_render \<lparr>home_products = [\<lparr>product_id = 1, product_name = ''Laptop'', product_description = None,
                                   product_price = 999, stockQuantity = 5\<rparr>],
                home_loading = False, home_error = None, home_message = None\<rparr>
     = HomeList None [\<lparr>product_id = 1, product_name = ''Laptop'', product_description = None,
                       product_price = 999, stockQuantity = 5\<rparr>]
   \<and> home_render (snd (home_handleAddToCart (Some 123) 1 1
        (Rejected (ErrorInstance ''Insufficient stock''))
        \<lparr>home_products = [\<lparr>product_id = 1, product_name = ''Laptop'', product_description = None,
                            product_price = 999, stockQuantity = 5\<rparr>],
         home_loading = False, home_error = None, home_message = None\<rparr>))
     = HomeError ''Insufficient stock''
   \<and> detail_render (Some 123)
        \<lparr>product = Some \<lparr>product_id = 1, product_name = ''Laptop'', product_description = None,
                          product_price = 999, stockQuantity = 5\<rparr>,
         detail_loading = False, detail_error = None, quantity = 1, detail_message = None\<rparr>
     = DetailProduct \<lparr>product_id = 1, product_name = ''Laptop'', product_description = None,
                      product_price = 999, stockQuantity = 5\<rparr> None (AddToCartControls 1 False)
   \<and> detail_render (Some 123) (snd (detail_handleAddToCart (Some 123)
        (Rejected (ErrorInstance ''Insufficient stock''))
        \<lparr>product = Some \<lparr>product_id = 1, product_name = ''Laptop'', product_description = None,
                          product_price = 999, stockQuantity = 5\<rparr>,
         detail_loading = False, detail_error = None, quantity = 1, detail_message = None\<rparr>))
     = DetailError ''Insufficient stock''"
  by (simp add: home_render_def home_handleAddToCart_def detail_render_def
      detail_handleAddToCart_def catch_message_def shown_def shown_template_def no_user_def)

section \<open>The quantity guard\<close>






end
